theory Spec2Isabelle
  imports Complex_Main "HOL-Library.Sublist"
begin

section \<open>Data model\<close>

subsection \<open>Provider status (data.proxy.interface.ts)\<close>

text \<open>
  The enum \<open>ProxyStatus\<close> of \<^verbatim>\<open>data.proxy.interface.ts\<close>, with its six members in the
  order of the source.
\<close>

datatype ProxyStatus = Sunny | Cloudy | Raining | ThunderStorm | Eclipse | Unknown

text \<open>
  The interface \<open>ProxyAPIStats\<close>: \<open>api_hit_rate\<close> is \<^verbatim>\<open>number | undefined\<close>; the
  undefined rate is \<open>None\<close>. A hit-rate is a fraction of attempts, so it is a rational.
\<close>

record ProxyAPIStats =
  status :: ProxyStatus
  api_hit_rate :: "rat option"

subsection \<open>Requests, capabilities, ledger rows (alphavantage.service.ts and its imports)\<close>

text \<open>
  \<open>StockDataRetrievalJobDto\<close>: the fields \<open>retrieveStockData\<close> reads. The exchange is
  the identifier a template literal prints; the interval is a number
  (\<^verbatim>\<open>const interval: number = stockDataRetrievalJobDto.interval\<close>).
\<close>

record StockDataRetrievalJobDto =
  symbol :: string
  exchange :: string
  interval :: int

text \<open>
  \<open>IDataProxyConfig\<close>: the two fields the adapter reads, each through optional
  chaining (\<^verbatim>\<open>?.openExchanges?.includes\<close>), so each may be undefined (\<open>None\<close>).
\<close>

record IDataProxyConfig =
  openExchanges :: "string list option"
  intraDayIntervals :: "int list option"

text \<open>The three members of \<open>HttpStatus\<close> the adapter uses, and their numeric values.\<close>

datatype HttpStatus = OK | BAD_REQUEST | INTERNAL_SERVER_ERROR

fun http_code :: "HttpStatus \<Rightarrow> nat" where
  "http_code OK = 200"
| "http_code BAD_REQUEST = 400"
| "http_code INTERNAL_SERVER_ERROR = 500"

text \<open>
  What the adapter throws: a plain \<^verbatim>\<open>new Error(message)\<close>, or a
  \<^verbatim>\<open>new HttpException(response, status)\<close>.
\<close>

datatype exception = Error string | HttpException string HttpStatus

text \<open>
  A row of the job ledger (the entity \<open>ProxyJobLog\<close>; its fields are those of the
  spec's JobLogEntry), a bar, and the response built from a ledger row.
  \<open>findProxyJobLogById\<close> may find no row, hence the option.
\<close>

record ProxyJobLog =
  job_id :: nat
  provider_name :: string
  url :: string
  status_code :: nat
  message :: string
  created_at :: nat

record StockDataBar =
  bar_timestamp :: nat
  bar_open :: rat
  bar_high :: rat
  bar_low :: rat
  bar_close :: rat
  bar_volume :: nat

datatype StockDataRetrievalJobResponseDto =
  StockDataRetrievalJobResponseDto "ProxyJobLog option"

subsection \<open>Collaborators and the world\<close>

text \<open>
  Modelled from the spec: the value an external fetch rejects with comes from
  \<^verbatim>\<open>alphavantage.api.ts\<close>, which is not among the sources. By the external fetch
  interface each fetch fails with a distinguishable client-vs-provider error: the
  failure is the caller's doing or the provider's. The adapter reads one thing of the
  value, its text \<^verbatim>\<open>error.toString()\<close>.
\<close>

datatype fetch_error = ClientFault string | ProviderFault string

fun toString :: "fetch_error \<Rightarrow> string" where
  "toString (ClientFault text) = text"
| "toString (ProviderFault text) = text"

text \<open>
  The collaborators whose code is not among the sources are parameters of the model:
  the constant \<open>IntervalEnum.ONE_DAY\<close>, the runtime's printing of an object as JSON
  and of a number in a template literal, the two mappers and the two URL builders
  (pure), the two external fetches, the bar store's save and the health check (each
  a promise: it resolves with a value or rejects). A rejected save is \<open>Some\<close> of its
  error text, a resolved one \<open>None\<close>.

  The adapter calls \<open>updateProxyJobLog\<close> without awaiting it and then awaits
  \<open>findProxyJobLogById\<close>: the source does not fix whether the read sees the update.
  \<open>update_lands_before_read\<close> says which of the two happens in a run.
\<close>

record deps =
  ONE_DAY :: int
  JSON_stringify :: "StockDataRetrievalJobDto \<Rightarrow> string"
  Number_toString :: "int \<Rightarrow> string"
  alphaVantageExchange :: "string \<Rightarrow> string"
  alphaVantageInterval :: "int \<Rightarrow> string"
  getDailyDataUrl :: "string \<Rightarrow> string \<Rightarrow> string \<Rightarrow> string"
  getIntraDayDataUrl :: "string \<Rightarrow> string \<Rightarrow> string \<Rightarrow> string"
  getDailyData :: "string \<Rightarrow> string \<Rightarrow> string \<Rightarrow> fetch_error + StockDataBar list"
  getIntraDayData :: "string \<Rightarrow> string \<Rightarrow> string \<Rightarrow> fetch_error + StockDataBar list"
  saveStockDataToDb :: "string \<Rightarrow> string \<Rightarrow> int \<Rightarrow> StockDataBar list \<Rightarrow> string option"
  update_lands_before_read :: bool
  getHealth :: "exception + string"

datatype fetch_call = DailyFetch string string string | IntraDayFetch string string string

datatype log_level = LOG | WARN | ERROR

type_synonym update_call = "nat option \<times> string \<times> string \<times> HttpStatus \<times> string"

text \<open>
  Everything the adapter acts on: the ledger's rows, and the traces of the calls it
  makes: \<open>ledger_updates\<close> holds one entry per call of \<open>updateProxyJobLog\<close>,
  \<open>fetch_calls\<close> one per external fetch, \<open>save_calls\<close> one per \<open>saveStockDataToDb\<close>,
  \<open>logs\<close> one per Logger call (level, message, second argument). The world a
  function returns is the world once the save and the update it started have
  settled.
\<close>

record world =
  ledger :: "nat \<rightharpoonup> ProxyJobLog"
  ledger_updates :: "update_call list"
  fetch_calls :: "fetch_call list"
  save_calls :: "(string \<times> string \<times> int \<times> StockDataBar list) list"
  logs :: "(log_level \<times> string \<times> string option) list"

section \<open>JavaScript strings\<close>

text \<open>
  Decimal digits: what a template literal prints for the length of an array, and what
  the concrete collaborators below print for the small numbers they are given. For
  the numbers of a request (the interval, the job id) the adapter's texts use the
  runtime's own printing, \<open>Number_toString\<close>; \<open>null\<close> prints as the word null.
\<close>

definition digit_char :: "nat \<Rightarrow> char" where
  "digit_char d = ''0123456789'' ! d"

function string_of_nat :: "nat \<Rightarrow> string" where
  "string_of_nat n =
     (if n < 10 then [digit_char n]
      else string_of_nat (n div 10) @ [digit_char (n mod 10)])"
  by pat_completeness auto
termination
  by (relation "measure (\<lambda>n. n)") auto

declare string_of_nat.simps [simp del]

definition string_of_int :: "int \<Rightarrow> string" where
  "string_of_int i =
     (if i < 0 then CHR ''-'' # string_of_nat (nat (- i)) else string_of_nat (nat i))"

definition string_of_jobId :: "deps \<Rightarrow> nat option \<Rightarrow> string" where
  "string_of_jobId d jobId =
     (case jobId of None \<Rightarrow> ''null'' | Some j \<Rightarrow> Number_toString d (int j))"

definition quoted :: "string \<Rightarrow> string" where
  "quoted s = [CHR 0x27] @ s @ [CHR 0x27]"

text \<open>\<^verbatim>\<open>s.startsWith(p)\<close>, and \<^verbatim>\<open>xs?.includes(x)\<close> with its undefined receiver.\<close>

definition startsWith :: "string \<Rightarrow> string \<Rightarrow> bool" where
  "startsWith s p = prefix p s"

definition includes_opt :: "'a list option \<Rightarrow> 'a \<Rightarrow> bool" where
  "includes_opt xs x = (case xs of None \<Rightarrow> False | Some ys \<Rightarrow> x \<in> set ys)"

text \<open>
  \<^verbatim>\<open>new Error(m).toString()\<close>: the name, a colon and the message; the name alone
  when the message is empty.
\<close>

definition Error_toString :: "string \<Rightarrow> string" where
  "Error_toString m = (if m = [] then ''Error'' else ''Error: '' @ m)"

section \<open>Health classifier\<close>

text \<open>
  Modelled from the spec: the classifier that turns a hit-rate into a \<open>ProxyStatus\<close>
  (the body of \<open>fetchAPIStats\<close> of \<^verbatim>\<open>data.proxy.service.ts\<close>) is not among the
  sources; only the enum and its comment are. The definition follows the contract
  \<open>classify(hit_rate: optional fraction) -> ProviderStatus\<close>, case by case and in its
  order. The contract names no status for a rate above 1, which is outside its
  input domain: there the model returns \<open>None\<close>, so that totality on the domain is
  a theorem and not an artefact of HOL.
\<close>

definition classify :: "rat option \<Rightarrow> ProxyStatus option" where
  "classify hit_rate =
     (case hit_rate of
        None \<Rightarrow> Some Unknown
      | Some h \<Rightarrow>
          if h = 1 then Some Sunny
          else if 75 / 100 \<le> h \<and> h < 1 then Some Cloudy
          else if 25 / 100 \<le> h \<and> h < 75 / 100 then Some Raining
          else if 1 / 100 \<le> h \<and> h < 25 / 100 then Some ThunderStorm
          else if h < 1 / 100 then Some Eclipse
          else None)"

text \<open>
  Modelled from the spec: the hit-rate behind \<open>api_hit_rate\<close> (computed by the absent
  \<open>fetchAPIStats\<close>) is the fraction of the recent ledger rows of a provider that
  succeeded, and is undefined when there is no such row; the status is the
  classifier's answer on it.
\<close>

definition succeeded :: "ProxyJobLog \<Rightarrow> bool" where
  "succeeded row = (status_code row = http_code OK)"

definition hit_rate :: "ProxyJobLog list \<Rightarrow> rat option" where
  "hit_rate rows =
     (if rows = [] then None
      else Some (rat_of_nat (length (filter succeeded rows)) / rat_of_nat (length rows)))"

definition fetchAPIStats :: "ProxyJobLog list \<Rightarrow> ProxyAPIStats option" where
  "fetchAPIStats rows =
     map_option (\<lambda>s. \<lparr>status = s, api_hit_rate = hit_rate rows\<rparr>) (classify (hit_rate rows))"

section \<open>The job ledger and the logger\<close>

text \<open>
  Modelled from the spec: \<open>ProxyJobLogService\<close> is not among the sources. Its
  \<open>updateProxyJobLog\<close> is the ledger interface's
  \<open>finalize(job_id, provider_name, url, status_code, message)\<close>, the single update in
  place of the row with that id, and \<open>findProxyJobLogById\<close> is \<open>find(job_id)\<close>. A job
  id whose row cannot be found when finalizing is the spec's \<open>LedgerInconsistency\<close>;
  with no job id (an ad-hoc call) there is no row to finalize.

  The adapter never awaits \<open>updateProxyJobLog\<close> and hangs no handler on it, so a
  failure of the update reaches no code of the adapter: the rows stay as they are.
  The call itself is always recorded in \<open>ledger_updates\<close>: that part is the adapter's
  doing, not the ledger's.
\<close>

datatype ledger_error = LedgerInconsistency

definition finalize ::
  "nat option \<Rightarrow> string \<Rightarrow> string \<Rightarrow> nat \<Rightarrow> string \<Rightarrow> (nat \<rightharpoonup> ProxyJobLog)
   \<Rightarrow> ledger_error + (nat \<rightharpoonup> ProxyJobLog)" where
  "finalize jobId name u code msg rows =
     (case jobId of
        None \<Rightarrow> Inr rows
      | Some j \<Rightarrow>
          (case rows j of
             None \<Rightarrow> Inl LedgerInconsistency
           | Some row \<Rightarrow>
               Inr (rows(j \<mapsto> row\<lparr>provider_name := name, url := u, status_code := code,
                                    message := msg\<rparr>))))"

definition rows_after ::
  "nat option \<Rightarrow> string \<Rightarrow> string \<Rightarrow> nat \<Rightarrow> string \<Rightarrow> (nat \<rightharpoonup> ProxyJobLog)
   \<Rightarrow> (nat \<rightharpoonup> ProxyJobLog)" where
  "rows_after jobId name u code msg rows =
     (case finalize jobId name u code msg rows of
        Inl failure \<Rightarrow> rows
      | Inr rows' \<Rightarrow> rows')"

definition updateProxyJobLog ::
  "nat option \<Rightarrow> string \<Rightarrow> string \<Rightarrow> HttpStatus \<Rightarrow> string \<Rightarrow> world \<Rightarrow> world" where
  "updateProxyJobLog jobId name u st msg w =
     w\<lparr>ledger_updates := ledger_updates w @ [(jobId, name, u, st, msg)],
       ledger := rows_after jobId name u (http_code st) msg (ledger w)\<rparr>"

definition findProxyJobLogById :: "nat option \<Rightarrow> world \<Rightarrow> ProxyJobLog option" where
  "findProxyJobLogById jobId w = (case jobId of None \<Rightarrow> None | Some j \<Rightarrow> ledger w j)"

definition logger :: "log_level \<Rightarrow> string \<Rightarrow> string option \<Rightarrow> world \<Rightarrow> world" where
  "logger lv msg arg w = w\<lparr>logs := logs w @ [(lv, msg, arg)]\<rparr>"

section \<open>AlphaVantageService (alphavantage.service.ts)\<close>

definition PROXY_NAME :: string where
  "PROXY_NAME = ''AlphaVantage''"

text \<open>\<open>pingProxyHealth\<close>: \<^verbatim>\<open>return await this._alphaVantageAPI.getHealth()\<close>, with no handler.\<close>

definition pingProxyHealth :: "deps \<Rightarrow> exception + string" where
  "pingProxyHealth d = (case getHealth d of Inl e \<Rightarrow> Inl e | Inr h \<Rightarrow> Inr h)"

text \<open>
  \<open>retrieveDailyData\<close>. The fetch's \<open>then\<close> handler starts the save without awaiting it,
  hangs the two logging callbacks on it and calls \<open>updateProxyJobLog\<close>, without
  awaiting it either; the \<open>catch\<close> handler tests the error's text, calls
  \<open>updateProxyJobLog\<close> and throws, so that the lines after the awaited chain, which
  read the row back and build the response, run on success only. The read sees the
  world \<open>seen\<close>: with the update or without it, as \<open>update_lands_before_read\<close> says.
  The save's callback runs once the save has settled, after the handler's own calls.
\<close>

definition retrieveDailyData ::
  "deps \<Rightarrow> StockDataRetrievalJobDto \<Rightarrow> nat option \<Rightarrow> world
   \<Rightarrow> (exception + StockDataRetrievalJobResponseDto) \<times> world" where
  "retrieveDailyData d dto jobId w0 =
     (let w1 = logger LOG (''AlphaVantageService : retrieveDailyData: stockDataRetrievalJobDto=''
                  @ JSON_stringify d dto @ '' jobId='' @ string_of_jobId d jobId) None w0;
          iv = interval dto;
          u = getDailyDataUrl d (symbol dto) (alphaVantageExchange d (exchange dto))
                (alphaVantageInterval d iv);
          w2 = w1\<lparr>fetch_calls := fetch_calls w1 @
                  [DailyFetch (symbol dto) (alphaVantageExchange d (exchange dto))
                     (alphaVantageInterval d iv)]\<rparr>
      in case getDailyData d (symbol dto) (alphaVantageExchange d (exchange dto))
                (alphaVantageInterval d iv) of
           Inr data \<Rightarrow>
             (let w3 = logger LOG ''AlphaVantageService : retrieveDailyData: success'' None w2;
                  w4 = w3\<lparr>save_calls := save_calls w3 @ [(symbol dto, exchange dto, iv, data)]\<rparr>;
                  w5 = updateProxyJobLog jobId PROXY_NAME u OK
                         (''DataSize='' @ string_of_nat (length data)) w4;
                  w6 = (case saveStockDataToDb d (symbol dto) (exchange dto) iv data of
                          None \<Rightarrow>
                            logger LOG ''AlphaVantageService : saveDailyDataToDb: success'' None w5
                        | Some failure \<Rightarrow>
                            logger LOG ''AlphaVantageService : saveDailyDataToDb: failed''
                              (Some failure) w5);
                  seen = (if update_lands_before_read d then w5 else w4)
              in (Inr (StockDataRetrievalJobResponseDto (findProxyJobLogById jobId seen)), w6))
         | Inl error \<Rightarrow>
             if startsWith (toString error) ''Error:'' then
               (let w3 = logger WARN ''AlphaVantageService : retrieveDailyData: error''
                           (Some (toString error)) w2;
                    w4 = updateProxyJobLog jobId PROXY_NAME u BAD_REQUEST (toString error) w3
                in (Inl (HttpException (toString error) BAD_REQUEST), w4))
             else
               (let w3 = logger ERROR ''AlphaVantageService : retrieveDailyData: error''
                           (Some (toString error)) w2;
                    w4 = updateProxyJobLog jobId PROXY_NAME u INTERNAL_SERVER_ERROR
                           (toString error) w3
                in (Inl (HttpException (toString error) INTERNAL_SERVER_ERROR), w4)))"

text \<open>\<open>retrieveIntraDayData\<close>: the same steps on the intraday URL and fetch.\<close>

definition retrieveIntraDayData ::
  "deps \<Rightarrow> StockDataRetrievalJobDto \<Rightarrow> nat option \<Rightarrow> world
   \<Rightarrow> (exception + StockDataRetrievalJobResponseDto) \<times> world" where
  "retrieveIntraDayData d dto jobId w0 =
     (let w1 = logger LOG (''AlphaVantageService : retrieveIntraDayData: stockDataRetrievalJobDto=''
                  @ JSON_stringify d dto @ '' jobId='' @ string_of_jobId d jobId) None w0;
          iv = interval dto;
          u = getIntraDayDataUrl d (symbol dto) (alphaVantageExchange d (exchange dto))
                (alphaVantageInterval d iv);
          w2 = w1\<lparr>fetch_calls := fetch_calls w1 @
                  [IntraDayFetch (symbol dto) (alphaVantageExchange d (exchange dto))
                     (alphaVantageInterval d iv)]\<rparr>
      in case getIntraDayData d (symbol dto) (alphaVantageExchange d (exchange dto))
                (alphaVantageInterval d iv) of
           Inr data \<Rightarrow>
             (let w3 = logger LOG ''AlphaVantageService : retrieveIntraDayData: success'' None w2;
                  w4 = w3\<lparr>save_calls := save_calls w3 @ [(symbol dto, exchange dto, iv, data)]\<rparr>;
                  w5 = updateProxyJobLog jobId PROXY_NAME u OK
                         (''DataSize='' @ string_of_nat (length data)) w4;
                  w6 = (case saveStockDataToDb d (symbol dto) (exchange dto) iv data of
                          None \<Rightarrow>
                            logger LOG ''AlphaVantageService : saveIntraDayDataToDb: success'' None w5
                        | Some failure \<Rightarrow>
                            logger LOG ''AlphaVantageService : saveIntraDayDataToDb: failed''
                              (Some failure) w5);
                  seen = (if update_lands_before_read d then w5 else w4)
              in (Inr (StockDataRetrievalJobResponseDto (findProxyJobLogById jobId seen)), w6))
         | Inl error \<Rightarrow>
             if startsWith (toString error) ''Error:'' then
               (let w3 = logger WARN ''AlphaVantageService : retrieveIntraDayData: error''
                           (Some (toString error)) w2;
                    w4 = updateProxyJobLog jobId PROXY_NAME u BAD_REQUEST (toString error) w3
                in (Inl (HttpException (toString error) BAD_REQUEST), w4))
             else
               (let w3 = logger ERROR ''AlphaVantageService : retrieveIntraDayData: error''
                           (Some (toString error)) w2;
                    w4 = updateProxyJobLog jobId PROXY_NAME u INTERNAL_SERVER_ERROR
                           (toString error) w3
                in (Inl (HttpException (toString error) INTERNAL_SERVER_ERROR), w4)))"

text \<open>
  \<open>retrieveStockData\<close>: the exchange test, inside it the test for the daily interval,
  then the test for an intraday interval; each failed test throws a plain Error.
\<close>

definition retrieveStockData ::
  "deps \<Rightarrow> IDataProxyConfig \<Rightarrow> StockDataRetrievalJobDto \<Rightarrow> nat option \<Rightarrow> world
   \<Rightarrow> (exception + StockDataRetrievalJobResponseDto) \<times> world" where
  "retrieveStockData d cfg dto jobId w0 =
     (let w1 = logger LOG (''AlphaVantageService : retrieveStockData: stockDataRetrievalJobDto=''
                  @ JSON_stringify d dto @ '' jobId='' @ string_of_jobId d jobId) None w0
      in if includes_opt (openExchanges cfg) (exchange dto) then
           if interval dto = ONE_DAY d then retrieveDailyData d dto jobId w1
           else if includes_opt (intraDayIntervals cfg) (interval dto) then
             retrieveIntraDayData d dto jobId w1
           else
             (Inl (Error (''AlphaVantageService : retrieveStockData : Invalid interval=''
                     @ quoted (Number_toString d (interval dto)))), w1)
         else
           (Inl (Error (''AlphaVantageService : retrieveStockData : Invalid exchange=''
                   @ quoted (exchange dto))), w1))"

text \<open>
  The status a \<open>catch\<close> handler of the two retrieval functions chooses for an error text,
  and the URL and the fetch of each, named for the statements below.
\<close>

definition error_status :: "string \<Rightarrow> HttpStatus" where
  "error_status err = (if startsWith err ''Error:'' then BAD_REQUEST else INTERNAL_SERVER_ERROR)"

definition daily_url :: "deps \<Rightarrow> StockDataRetrievalJobDto \<Rightarrow> string" where
  "daily_url d dto =
     getDailyDataUrl d (symbol dto) (alphaVantageExchange d (exchange dto))
       (alphaVantageInterval d (interval dto))"

definition intraday_url :: "deps \<Rightarrow> StockDataRetrievalJobDto \<Rightarrow> string" where
  "intraday_url d dto =
     getIntraDayDataUrl d (symbol dto) (alphaVantageExchange d (exchange dto))
       (alphaVantageInterval d (interval dto))"

definition daily_fetch ::
  "deps \<Rightarrow> StockDataRetrievalJobDto \<Rightarrow> fetch_error + StockDataBar list" where
  "daily_fetch d dto =
     getDailyData d (symbol dto) (alphaVantageExchange d (exchange dto))
       (alphaVantageInterval d (interval dto))"

definition intraday_fetch ::
  "deps \<Rightarrow> StockDataRetrievalJobDto \<Rightarrow> fetch_error + StockDataBar list" where
  "intraday_fetch d dto =
     getIntraDayData d (symbol dto) (alphaVantageExchange d (exchange dto))
       (alphaVantageInterval d (interval dto))"

section \<open>The capability descriptor, in the spec's words\<close>

text \<open>
  The spec's descriptor and its admissibility test, written from its sentence
  \<open>is_admissible(r,d)\<close> is true iff \<open>r.interval == ONE_DAY \<and> d.daily_supported\<close>, or
  \<open>r.interval \<in> d.intraday_intervals\<close>, and in both cases \<open>r.exchange \<in> d.exchanges\<close>.
  It is compared with \<open>retrieveStockData\<close> below. The adapter's configuration has no
  flag for daily bars: it serves the daily interval whenever the exchange is open,
  so its descriptor has the flag set.
\<close>

record CapabilityDescriptor =
  exchanges :: "string set"
  intraday_intervals :: "int set"
  daily_supported :: bool

definition is_admissible :: "int \<Rightarrow> StockDataRetrievalJobDto \<Rightarrow> CapabilityDescriptor \<Rightarrow> bool" where
  "is_admissible one_day r dsc =
     ((interval r = one_day \<and> daily_supported dsc \<or> interval r \<in> intraday_intervals dsc)
      \<and> exchange r \<in> exchanges dsc)"

definition descriptor_of :: "IDataProxyConfig \<Rightarrow> CapabilityDescriptor" where
  "descriptor_of cfg =
     \<lparr>exchanges = (case openExchanges cfg of None \<Rightarrow> {} | Some xs \<Rightarrow> set xs),
      intraday_intervals = (case intraDayIntervals cfg of None \<Rightarrow> {} | Some xs \<Rightarrow> set xs),
      daily_supported = True\<rparr>"

section \<open>Concrete inputs\<close>

text \<open>
  A provider open on NASDAQ with five intraday intervals, collaborators whose fetch,
  save and health check have the given outcomes and whose ledger update lands before
  the read (a record update of \<open>update_lands_before_read\<close> gives the other run), a
  ledger holding the row of job 7 as its creator left it, and requests for the
  symbol AAPL.
\<close>

definition example_config :: IDataProxyConfig where
  "example_config = \<lparr>openExchanges = Some [''NASDAQ''], intraDayIntervals = Some [1, 5, 15, 30, 60]\<rparr>"

definition example_deps ::
  "(fetch_error + StockDataBar list) \<Rightarrow> string option \<Rightarrow> (exception + string) \<Rightarrow> deps" where
  "example_deps fetched saved health =
     \<lparr>ONE_DAY = 1440,
      JSON_stringify = (\<lambda>dto. symbol dto),
      Number_toString = (\<lambda>i. string_of_int i),
      alphaVantageExchange = (\<lambda>e. e),
      alphaVantageInterval = (\<lambda>i. string_of_int i),
      getDailyDataUrl = (\<lambda>s e i. ''daily/'' @ e @ ''/'' @ s),
      getIntraDayDataUrl = (\<lambda>s e i. ''intraday/'' @ e @ ''/'' @ s @ ''/'' @ i),
      getDailyData = (\<lambda>s e i. fetched),
      getIntraDayData = (\<lambda>s e i. fetched),
      saveStockDataToDb = (\<lambda>s e i bars. saved),
      update_lands_before_read = True,
      getHealth = health\<rparr>"

definition example_row :: ProxyJobLog where
  "example_row =
     \<lparr>job_id = 7, provider_name = ''AlphaVantage'', url = [], status_code = 0,
      message = [], created_at = 0\<rparr>"

definition example_world :: world where
  "example_world =
     \<lparr>ledger = [7 \<mapsto> example_row], ledger_updates = [], fetch_calls = [], save_calls = [],
      logs = []\<rparr>"

definition example_dto :: "string \<Rightarrow> int \<Rightarrow> StockDataRetrievalJobDto" where
  "example_dto ex iv = \<lparr>symbol = ''AAPL'', exchange = ex, interval = iv\<rparr>"

definition example_bars :: "StockDataBar list" where
  "example_bars =
     [\<lparr>bar_timestamp = 1, bar_open = 10, bar_high = 12, bar_low = 9, bar_close = 11,
       bar_volume = 100\<rparr>,
      \<lparr>bar_timestamp = 2, bar_open = 11, bar_high = 13, bar_low = 10, bar_close = 12,
       bar_volume = 150\<rparr>]"

section \<open>The two retrieval functions, case by case\<close>

lemmas adapter_defs = retrieveDailyData_def retrieveIntraDayData_def daily_fetch_def
  intraday_fetch_def daily_url_def intraday_url_def error_status_def Let_def

lemma logger_keeps:
  "ledger (logger lv msg arg w) = ledger w"
  "ledger_updates (logger lv msg arg w) = ledger_updates w"
  "fetch_calls (logger lv msg arg w) = fetch_calls w"
  "save_calls (logger lv msg arg w) = save_calls w"
  by (simp_all add: logger_def)

lemma updateProxyJobLog_keeps:
  "ledger (updateProxyJobLog jobId name u st msg w) =
     rows_after jobId name u (http_code st) msg (ledger w)"
  "ledger_updates (updateProxyJobLog jobId name u st msg w) =
     ledger_updates w @ [(jobId, name, u, st, msg)]"
  "fetch_calls (updateProxyJobLog jobId name u st msg w) = fetch_calls w"
  "save_calls (updateProxyJobLog jobId name u st msg w) = save_calls w"
  by (simp_all add: updateProxyJobLog_def)

lemmas world_simps = logger_keeps updateProxyJobLog_keeps


lemma rows_after_row:
  "rows j = Some row \<Longrightarrow>
     rows_after (Some j) name u code msg rows j =
       Some (row\<lparr>provider_name := name, url := u, status_code := code, message := msg\<rparr>)"
  by (simp add: rows_after_def finalize_def)


subsection \<open>Daily\<close>

lemma daily_failure_result:
  "daily_fetch d dto = Inl e \<Longrightarrow>
     fst (retrieveDailyData d dto jobId w) =
       Inl (HttpException (toString e) (error_status (toString e)))"
  by (simp add: retrieveDailyData_def daily_fetch_def error_status_def Let_def)

lemma daily_failure_updates:
  "daily_fetch d dto = Inl e \<Longrightarrow>
     ledger_updates (snd (retrieveDailyData d dto jobId w)) =
       ledger_updates w @
         [(jobId, PROXY_NAME, daily_url d dto, error_status (toString e), toString e)]"
  by (simp add: adapter_defs world_simps)

lemma daily_failure_ledger:
  "daily_fetch d dto = Inl e \<Longrightarrow>
     ledger (snd (retrieveDailyData d dto jobId w)) =
       rows_after jobId PROXY_NAME (daily_url d dto) (http_code (error_status (toString e)))
         (toString e) (ledger w)"
  by (simp add: adapter_defs world_simps)

lemma daily_failure_no_save:
  "daily_fetch d dto = Inl e \<Longrightarrow>
     save_calls (snd (retrieveDailyData d dto jobId w)) = save_calls w"
  by (simp add: adapter_defs world_simps)

lemma daily_fetch_calls:
  "fetch_calls (snd (retrieveDailyData d dto jobId w)) =
     fetch_calls w @ [DailyFetch (symbol dto) (alphaVantageExchange d (exchange dto))
                        (alphaVantageInterval d (interval dto))]"
  by (simp add: adapter_defs world_simps split: sum.split option.split)

lemma daily_success_updates:
  "daily_fetch d dto = Inr data \<Longrightarrow>
     ledger_updates (snd (retrieveDailyData d dto jobId w)) =
       ledger_updates w @
         [(jobId, PROXY_NAME, daily_url d dto, OK, ''DataSize='' @ string_of_nat (length data))]"
  by (simp add: adapter_defs world_simps split: option.split)






lemma daily_failure_row:
  "daily_fetch d dto = Inl e \<Longrightarrow> ledger w j = Some row \<Longrightarrow>
     findProxyJobLogById (Some j) (snd (retrieveDailyData d dto (Some j) w)) =
       Some (row\<lparr>provider_name := PROXY_NAME, url := daily_url d dto,
                 status_code := http_code (error_status (toString e)),
                 message := toString e\<rparr>)"
  by (simp add: findProxyJobLogById_def daily_failure_ledger rows_after_row)


subsection \<open>Intraday\<close>

lemma intraday_failure_result:
  "intraday_fetch d dto = Inl e \<Longrightarrow>
     fst (retrieveIntraDayData d dto jobId w) =
       Inl (HttpException (toString e) (error_status (toString e)))"
  by (simp add: retrieveIntraDayData_def intraday_fetch_def error_status_def Let_def)

lemma intraday_failure_updates:
  "intraday_fetch d dto = Inl e \<Longrightarrow>
     ledger_updates (snd (retrieveIntraDayData d dto jobId w)) =
       ledger_updates w @
         [(jobId, PROXY_NAME, intraday_url d dto, error_status (toString e), toString e)]"
  by (simp add: adapter_defs world_simps)

lemma intraday_failure_ledger:
  "intraday_fetch d dto = Inl e \<Longrightarrow>
     ledger (snd (retrieveIntraDayData d dto jobId w)) =
       rows_after jobId PROXY_NAME (intraday_url d dto) (http_code (error_status (toString e)))
         (toString e) (ledger w)"
  by (simp add: adapter_defs world_simps)

lemma intraday_failure_no_save:
  "intraday_fetch d dto = Inl e \<Longrightarrow>
     save_calls (snd (retrieveIntraDayData d dto jobId w)) = save_calls w"
  by (simp add: adapter_defs world_simps)

lemma intraday_fetch_calls:
  "fetch_calls (snd (retrieveIntraDayData d dto jobId w)) =
     fetch_calls w @ [IntraDayFetch (symbol dto) (alphaVantageExchange d (exchange dto))
                        (alphaVantageInterval d (interval dto))]"
  by (simp add: adapter_defs world_simps split: sum.split option.split)

lemma intraday_success_updates:
  "intraday_fetch d dto = Inr data \<Longrightarrow>
     ledger_updates (snd (retrieveIntraDayData d dto jobId w)) =
       ledger_updates w @
         [(jobId, PROXY_NAME, intraday_url d dto, OK, ''DataSize='' @ string_of_nat (length data))]"
  by (simp add: adapter_defs world_simps split: option.split)






lemma intraday_failure_row:
  "intraday_fetch d dto = Inl e \<Longrightarrow> ledger w j = Some row \<Longrightarrow>
     findProxyJobLogById (Some j) (snd (retrieveIntraDayData d dto (Some j) w)) =
       Some (row\<lparr>provider_name := PROXY_NAME, url := intraday_url d dto,
                 status_code := http_code (error_status (toString e)),
                 message := toString e\<rparr>)"
  by (simp add: findProxyJobLogById_def intraday_failure_ledger rows_after_row)


section \<open>Routing in retrieveStockData\<close>

lemma retrieveStockData_daily:
  "includes_opt (openExchanges cfg) (exchange dto) \<Longrightarrow> interval dto = ONE_DAY d \<Longrightarrow>
     \<exists>msg. retrieveStockData d cfg dto jobId w = retrieveDailyData d dto jobId (logger LOG msg None w)"
  by (simp add: retrieveStockData_def) (rule exI, rule refl)

lemma retrieveStockData_intraday:
  "includes_opt (openExchanges cfg) (exchange dto) \<Longrightarrow> interval dto \<noteq> ONE_DAY d \<Longrightarrow>
   includes_opt (intraDayIntervals cfg) (interval dto) \<Longrightarrow>
     \<exists>msg. retrieveStockData d cfg dto jobId w =
       retrieveIntraDayData d dto jobId (logger LOG msg None w)"
  by (simp add: retrieveStockData_def) (rule exI, rule refl)

lemma retrieveStockData_invalid_interval:
  "includes_opt (openExchanges cfg) (exchange dto) \<Longrightarrow> interval dto \<noteq> ONE_DAY d \<Longrightarrow>
   \<not> includes_opt (intraDayIntervals cfg) (interval dto) \<Longrightarrow>
     \<exists>msg. retrieveStockData d cfg dto jobId w =
       (Inl (Error (''AlphaVantageService : retrieveStockData : Invalid interval=''
               @ quoted (Number_toString d (interval dto)))), logger LOG msg None w)"
  by (simp add: retrieveStockData_def) (rule exI, rule refl)

lemma retrieveStockData_invalid_exchange:
  "\<not> includes_opt (openExchanges cfg) (exchange dto) \<Longrightarrow>
     \<exists>msg. retrieveStockData d cfg dto jobId w =
       (Inl (Error (''AlphaVantageService : retrieveStockData : Invalid exchange=''
               @ quoted (exchange dto))), logger LOG msg None w)"
  by (simp add: retrieveStockData_def) (rule exI, rule refl)

lemma is_admissible_code:
  "is_admissible (ONE_DAY d) dto (descriptor_of cfg) \<longleftrightarrow>
     includes_opt (openExchanges cfg) (exchange dto) \<and>
     (interval dto = ONE_DAY d \<or> includes_opt (intraDayIntervals cfg) (interval dto))"
  by (auto simp: is_admissible_def descriptor_of_def includes_opt_def split: option.splits)

lemma Error_toString_client: "m \<noteq> [] \<Longrightarrow> startsWith (Error_toString m) ''Error:''"
  by (simp add: Error_toString_def startsWith_def)

lemma retrieveStockData_routed:
  assumes "includes_opt (openExchanges cfg) (exchange dto)"
    and "interval dto = ONE_DAY d \<or> includes_opt (intraDayIntervals cfg) (interval dto)"
  shows "\<exists>c. fetch_calls (snd (retrieveStockData d cfg dto jobId w)) = fetch_calls w @ [c]"
    and "\<exists>u. ledger_updates (snd (retrieveStockData d cfg dto jobId w)) = ledger_updates w @ [u]
            \<and> fst u = jobId"
proof -
  consider (daily) "interval dto = ONE_DAY d"
    | (intraday) "interval dto \<noteq> ONE_DAY d" "includes_opt (intraDayIntervals cfg) (interval dto)"
    using assms(2) by blast
  then have "(\<exists>c. fetch_calls (snd (retrieveStockData d cfg dto jobId w)) = fetch_calls w @ [c]) \<and>
    (\<exists>u. ledger_updates (snd (retrieveStockData d cfg dto jobId w)) = ledger_updates w @ [u]
            \<and> fst u = jobId)"
  proof cases
    case daily
    from retrieveStockData_daily [OF assms(1) daily, of jobId w]
    obtain msg where r: "retrieveStockData d cfg dto jobId w =
        retrieveDailyData d dto jobId (logger LOG msg None w)" ..
    have "\<exists>u. ledger_updates (snd (retrieveDailyData d dto jobId (logger LOG msg None w))) =
        ledger_updates w @ [u] \<and> fst u = jobId"
      by (cases "daily_fetch d dto")
        (simp_all add: daily_failure_updates daily_success_updates logger_keeps)
    then show ?thesis
      by (simp add: r daily_fetch_calls logger_keeps)
  next
    case intraday
    from retrieveStockData_intraday [OF assms(1) intraday, of jobId w]
    obtain msg where r: "retrieveStockData d cfg dto jobId w =
        retrieveIntraDayData d dto jobId (logger LOG msg None w)" ..
    have "\<exists>u. ledger_updates (snd (retrieveIntraDayData d dto jobId (logger LOG msg None w))) =
        ledger_updates w @ [u] \<and> fst u = jobId"
      by (cases "intraday_fetch d dto")
        (simp_all add: intraday_failure_updates intraday_success_updates logger_keeps)
    then show ?thesis
      by (simp add: r intraday_fetch_calls logger_keeps)
  qed
  then show "\<exists>c. fetch_calls (snd (retrieveStockData d cfg dto jobId w)) = fetch_calls w @ [c]"
    and "\<exists>u. ledger_updates (snd (retrieveStockData d cfg dto jobId w)) = ledger_updates w @ [u]
            \<and> fst u = jobId"
    by blast+
qed

lemma retrieveStockData_rejected:
  assumes "\<not> (includes_opt (openExchanges cfg) (exchange dto) \<and>
     (interval dto = ONE_DAY d \<or> includes_opt (intraDayIntervals cfg) (interval dto)))"
  shows "\<exists>m. fst (retrieveStockData d cfg dto jobId w) = Inl (Error m) \<and>
            startsWith (Error_toString m) ''Error:''"
    and "fetch_calls (snd (retrieveStockData d cfg dto jobId w)) = fetch_calls w"
    and "ledger_updates (snd (retrieveStockData d cfg dto jobId w)) = ledger_updates w"
    and "ledger (snd (retrieveStockData d cfg dto jobId w)) = ledger w"
    and "save_calls (snd (retrieveStockData d cfg dto jobId w)) = save_calls w"
proof -
  consider (exchange) "\<not> includes_opt (openExchanges cfg) (exchange dto)"
    | (interval) "includes_opt (openExchanges cfg) (exchange dto)" "interval dto \<noteq> ONE_DAY d"
        "\<not> includes_opt (intraDayIntervals cfg) (interval dto)"
    using assms by blast
  then have "\<exists>m msg. retrieveStockData d cfg dto jobId w = (Inl (Error m), logger LOG msg None w)
      \<and> m \<noteq> []"
  proof cases
    case exchange
    from retrieveStockData_invalid_exchange [OF exchange, of d jobId w] show ?thesis
      by (metis append_is_Nil_conv list.distinct(1))
  next
    case interval
    from retrieveStockData_invalid_interval [OF interval, of jobId w] show ?thesis
      by (metis append_is_Nil_conv list.distinct(1))
  qed
  then obtain m msg where
    r: "retrieveStockData d cfg dto jobId w = (Inl (Error m), logger LOG msg None w)"
    and m: "m \<noteq> []"
    by blast
  show "\<exists>m. fst (retrieveStockData d cfg dto jobId w) = Inl (Error m) \<and>
          startsWith (Error_toString m) ''Error:''"
    by (simp add: r Error_toString_client [OF m])
  show "fetch_calls (snd (retrieveStockData d cfg dto jobId w)) = fetch_calls w"
    and "ledger_updates (snd (retrieveStockData d cfg dto jobId w)) = ledger_updates w"
    and "ledger (snd (retrieveStockData d cfg dto jobId w)) = ledger w"
    and "save_calls (snd (retrieveStockData d cfg dto jobId w)) = save_calls w"
    by (simp_all add: r logger_keeps)
qed

text \<open>The definitions a run on the concrete inputs unfolds.\<close>

lemmas example_defs = example_deps_def example_config_def example_dto_def example_world_def
  example_row_def example_bars_def

lemmas run_defs = retrieveStockData_def retrieveDailyData_def retrieveIntraDayData_def
  includes_opt_def logger_def updateProxyJobLog_def rows_after_def finalize_def
  findProxyJobLogById_def startsWith_def quoted_def string_of_jobId_def PROXY_NAME_def Let_def

lemmas print_defs = string_of_int_def string_of_nat.simps digit_char_def

section \<open>Admissibility and routing\<close>

text \<open>
  C1. A request is routed to a fetch path (one external fetch is issued) exactly when
  it is admissible for the adapter's descriptor in the spec's sense: its exchange is
  among the open exchanges, and its interval is the daily one (daily bars are always
  supported by this adapter, whose configuration has no flag for them) or among the
  intraday intervals. The daily interval goes to the daily fetch, an intraday one to
  the intraday fetch. Every other request is rejected, not ignored: nothing is
  fetched or saved, and the call raises the Error whose message names the request's
  own exchange, or else its own interval, as invalid, which lays the error at the
  caller's request.
\<close>

theorem retrieveStockData_accepts_iff_admissible:
  "((\<exists>c. fetch_calls (snd (retrieveStockData d cfg dto jobId w)) = fetch_calls w @ [c])
      \<longleftrightarrow> is_admissible (ONE_DAY d) dto (descriptor_of cfg)) \<and>
   (is_admissible (ONE_DAY d) dto (descriptor_of cfg) \<longleftrightarrow>
      includes_opt (openExchanges cfg) (exchange dto) \<and>
      (interval dto = ONE_DAY d \<or> includes_opt (intraDayIntervals cfg) (interval dto))) \<and>
   (includes_opt (openExchanges cfg) (exchange dto) \<and> interval dto = ONE_DAY d \<longrightarrow>
      fetch_calls (snd (retrieveStockData d cfg dto jobId w)) =
        fetch_calls w @ [DailyFetch (symbol dto) (alphaVantageExchange d (exchange dto))
                           (alphaVantageInterval d (interval dto))]) \<and>
   (includes_opt (openExchanges cfg) (exchange dto) \<and> interval dto \<noteq> ONE_DAY d \<and>
    includes_opt (intraDayIntervals cfg) (interval dto) \<longrightarrow>
      fetch_calls (snd (retrieveStockData d cfg dto jobId w)) =
        fetch_calls w @ [IntraDayFetch (symbol dto) (alphaVantageExchange d (exchange dto))
                           (alphaVantageInterval d (interval dto))]) \<and>
   (\<not> includes_opt (openExchanges cfg) (exchange dto) \<longrightarrow>
      fst (retrieveStockData d cfg dto jobId w) =
        Inl (Error (''AlphaVantageService : retrieveStockData : Invalid exchange=''
               @ quoted (exchange dto))) \<and>
      fetch_calls (snd (retrieveStockData d cfg dto jobId w)) = fetch_calls w \<and>
      save_calls (snd (retrieveStockData d cfg dto jobId w)) = save_calls w) \<and>
   (includes_opt (openExchanges cfg) (exchange dto) \<and> interval dto \<noteq> ONE_DAY d \<and>
    \<not> includes_opt (intraDayIntervals cfg) (interval dto) \<longrightarrow>
      fst (retrieveStockData d cfg dto jobId w) =
        Inl (Error (''AlphaVantageService : retrieveStockData : Invalid interval=''
               @ quoted (Number_toString d (interval dto)))) \<and>
      fetch_calls (snd (retrieveStockData d cfg dto jobId w)) = fetch_calls w \<and>
      save_calls (snd (retrieveStockData d cfg dto jobId w)) = save_calls w)"
proof -
  let ?r = "retrieveStockData d cfg dto jobId w"
  have iff: "(\<exists>c. fetch_calls (snd ?r) = fetch_calls w @ [c])
      \<longleftrightarrow> is_admissible (ONE_DAY d) dto (descriptor_of cfg)"
  proof (cases "is_admissible (ONE_DAY d) dto (descriptor_of cfg)")
    case True
    then have "includes_opt (openExchanges cfg) (exchange dto)"
      and "interval dto = ONE_DAY d \<or> includes_opt (intraDayIntervals cfg) (interval dto)"
      by (simp_all add: is_admissible_code)
    from retrieveStockData_routed(1) [OF this] True show ?thesis
      by simp
  next
    case False
    then have "\<not> (includes_opt (openExchanges cfg) (exchange dto) \<and>
       (interval dto = ONE_DAY d \<or> includes_opt (intraDayIntervals cfg) (interval dto)))"
      by (simp add: is_admissible_code)
    from retrieveStockData_rejected(2) [OF this] False show ?thesis
      by simp
  qed
  have daily: "fetch_calls (snd ?r) =
        fetch_calls w @ [DailyFetch (symbol dto) (alphaVantageExchange d (exchange dto))
                           (alphaVantageInterval d (interval dto))]"
    if "includes_opt (openExchanges cfg) (exchange dto)" "interval dto = ONE_DAY d"
    using retrieveStockData_daily [OF that, of jobId w]
    by (auto simp: daily_fetch_calls logger_keeps)
  have intraday: "fetch_calls (snd ?r) =
        fetch_calls w @ [IntraDayFetch (symbol dto) (alphaVantageExchange d (exchange dto))
                           (alphaVantageInterval d (interval dto))]"
    if "includes_opt (openExchanges cfg) (exchange dto)" "interval dto \<noteq> ONE_DAY d"
      "includes_opt (intraDayIntervals cfg) (interval dto)"
    using retrieveStockData_intraday [OF that, of jobId w]
    by (auto simp: intraday_fetch_calls logger_keeps)
  have bad_exchange: "fst ?r =
        Inl (Error (''AlphaVantageService : retrieveStockData : Invalid exchange=''
               @ quoted (exchange dto))) \<and>
      fetch_calls (snd ?r) = fetch_calls w \<and> save_calls (snd ?r) = save_calls w"
    if "\<not> includes_opt (openExchanges cfg) (exchange dto)"
    using retrieveStockData_invalid_exchange [OF that, of d jobId w]
    by (auto simp: logger_keeps)
  have bad_interval: "fst ?r =
        Inl (Error (''AlphaVantageService : retrieveStockData : Invalid interval=''
               @ quoted (Number_toString d (interval dto)))) \<and>
      fetch_calls (snd ?r) = fetch_calls w \<and> save_calls (snd ?r) = save_calls w"
    if "includes_opt (openExchanges cfg) (exchange dto)" "interval dto \<noteq> ONE_DAY d"
      "\<not> includes_opt (intraDayIntervals cfg) (interval dto)"
    using retrieveStockData_invalid_interval [OF that, of jobId w]
    by (auto simp: logger_keeps)
  from iff is_admissible_code [of d dto cfg] daily intraday bad_exchange bad_interval
  show ?thesis
    by blast
qed

theorem retrieveStockData_accepts_iff_admissible_witness:
  "is_admissible 1440 (example_dto ''NASDAQ'' 1440) (descriptor_of example_config) \<and>
   fetch_calls (snd (retrieveStockData (example_deps (Inr example_bars) None (Inr ''UP''))
           example_config (example_dto ''NASDAQ'' 1440) (Some 7) example_world)) =
     [DailyFetch ''AAPL'' ''NASDAQ'' ''1440''] \<and>
   fetch_calls (snd (retrieveStockData (example_deps (Inr example_bars) None (Inr ''UP''))
           example_config (example_dto ''NASDAQ'' 5) (Some 7) example_world)) =
     [IntraDayFetch ''AAPL'' ''NASDAQ'' ''5''] \<and>
   \<not> is_admissible 1440 (example_dto ''NYSE'' 1440) (descriptor_of example_config) \<and>
   fst (retrieveStockData (example_deps (Inr example_bars) None (Inr ''UP''))
           example_config (example_dto ''NYSE'' 1440) (Some 7) example_world) =
     Inl (Error (''AlphaVantageService : retrieveStockData : Invalid exchange='' @ quoted ''NYSE'')) \<and>
   fetch_calls (snd (retrieveStockData (example_deps (Inr example_bars) None (Inr ''UP''))
           example_config (example_dto ''NYSE'' 1440) (Some 7) example_world)) = [] \<and>
   \<not> is_admissible 1440 (example_dto ''NASDAQ'' 7) (descriptor_of example_config) \<and>
   fst (retrieveStockData (example_deps (Inr example_bars) None (Inr ''UP''))
           example_config (example_dto ''NASDAQ'' 7) (Some 7) example_world) =
     Inl (Error (''AlphaVantageService : retrieveStockData : Invalid interval='' @ quoted ''7''))"
proof -
  let ?d = "example_deps (Inr example_bars) None (Inr ''UP'')"
  have o: "ONE_DAY ?d = 1440" "alphaVantageExchange ?d = (\<lambda>e. e)"
    "alphaVantageInterval ?d = (\<lambda>i. string_of_int i)" "Number_toString ?d = (\<lambda>i. string_of_int i)"
    by (simp_all add: example_deps_def)
  have p: "string_of_int 1440 = ''1440''" "string_of_int 5 = ''5''" "string_of_int 7 = ''7''"
    by (simp_all add: print_defs)
  have c: "includes_opt (openExchanges example_config) ''NASDAQ''"
    "\<not> includes_opt (openExchanges example_config) ''NYSE''"
    "includes_opt (intraDayIntervals example_config) 5"
    "\<not> includes_opt (intraDayIntervals example_config) 7"
    by (simp_all add: includes_opt_def example_config_def)
  have a: "is_admissible 1440 (example_dto ''NASDAQ'' 1440) (descriptor_of example_config)"
    "\<not> is_admissible 1440 (example_dto ''NYSE'' 1440) (descriptor_of example_config)"
    "\<not> is_admissible 1440 (example_dto ''NASDAQ'' 7) (descriptor_of example_config)"
    by (simp_all add: is_admissible_def descriptor_of_def example_config_def example_dto_def)
  have w: "fetch_calls example_world = []"
    by (simp add: example_world_def)
  show ?thesis
    using a c
      retrieveStockData_accepts_iff_admissible [of ?d example_config
        "example_dto ''NASDAQ'' 1440" "Some 7" example_world]
      retrieveStockData_accepts_iff_admissible [of ?d example_config
        "example_dto ''NASDAQ'' 5" "Some 7" example_world]
      retrieveStockData_accepts_iff_admissible [of ?d example_config
        "example_dto ''NYSE'' 1440" "Some 7" example_world]
      retrieveStockData_accepts_iff_admissible [of ?d example_config
        "example_dto ''NASDAQ'' 7" "Some 7" example_world]
    by (simp add: o p w example_dto_def)
qed

section \<open>The health classifier's bands\<close>

text \<open>
  C2. On the rates from 0 to 1 the classifier always answers, and its five bands
  split that range with no gap and no overlap, each band closed below: Eclipse below
  0.01 (0 included), ThunderStorm from 0.01 up to 0.25, Raining from 0.25 up to 0.75,
  Cloudy from 0.75 up to 1, Sunny at 1 exactly; a defined rate is never Unknown. The
  five boundary values map as the contract lists them.
\<close>

theorem classify_bands:
  "0 \<le> h \<Longrightarrow> h \<le> 1 \<Longrightarrow>
     (\<exists>s. classify (Some h) = Some s) \<and>
     (classify (Some h) = Some Eclipse \<longleftrightarrow> h < 1 / 100) \<and>
     (classify (Some h) = Some ThunderStorm \<longleftrightarrow> 1 / 100 \<le> h \<and> h < 25 / 100) \<and>
     (classify (Some h) = Some Raining \<longleftrightarrow> 25 / 100 \<le> h \<and> h < 75 / 100) \<and>
     (classify (Some h) = Some Cloudy \<longleftrightarrow> 75 / 100 \<le> h \<and> h < 1) \<and>
     (classify (Some h) = Some Sunny \<longleftrightarrow> h = 1) \<and>
     classify (Some h) \<noteq> Some Unknown \<and>
     classify (Some 0) = Some Eclipse \<and>
     classify (Some (1 / 100)) = Some ThunderStorm \<and>
     classify (Some (25 / 100)) = Some Raining \<and>
     classify (Some (75 / 100)) = Some Cloudy \<and>
     classify (Some 1) = Some Sunny"
  by (auto simp: classify_def)

theorem classify_bands_witness:
  "(0::rat) \<le> 3 / 4 \<and> (3 / 4 :: rat) \<le> 1 \<and> classify (Some (3 / 4)) = Some Cloudy \<and>
   classify (Some (3 / 4)) \<noteq> Some Raining"
proof -
  have l: "(0::rat) \<le> 3 / 4" and u: "(3 / 4 :: rat) \<le> 1"
    by simp_all
  show ?thesis
    using l u classify_bands [OF l u] by simp
qed

text \<open>
  C8. The undefined rate is classified Unknown, and a provider with no ledger row has
  the undefined rate: its statistics report Unknown, not Eclipse.
\<close>

theorem classify_undefined_Unknown:
  "classify None = Some Unknown \<and>
   hit_rate [] = None \<and>
   fetchAPIStats [] = Some \<lparr>status = Unknown, api_hit_rate = None\<rparr> \<and>
   map_option status (fetchAPIStats []) \<noteq> Some Eclipse"
  by (simp add: classify_def hit_rate_def fetchAPIStats_def)

section \<open>Rejected requests\<close>

text \<open>
  C3. A request whose exchange is not open is rejected by \<open>retrieveStockData\<close> with the
  plain Error naming the exchange, a text the adapter's handlers take for a client's
  error; no external fetch and no save is attempted, and no ledger update is made:
  the rows of the ledger stay as they were.
\<close>

theorem unsupported_exchange_rejected:
  "\<not> includes_opt (openExchanges cfg) (exchange dto) \<Longrightarrow>
     fst (retrieveStockData d cfg dto jobId w) =
       Inl (Error (''AlphaVantageService : retrieveStockData : Invalid exchange=''
              @ quoted (exchange dto))) \<and>
     startsWith (Error_toString (''AlphaVantageService : retrieveStockData : Invalid exchange=''
              @ quoted (exchange dto))) ''Error:'' \<and>
     fetch_calls (snd (retrieveStockData d cfg dto jobId w)) = fetch_calls w \<and>
     save_calls (snd (retrieveStockData d cfg dto jobId w)) = save_calls w \<and>
     ledger_updates (snd (retrieveStockData d cfg dto jobId w)) = ledger_updates w \<and>
     ledger (snd (retrieveStockData d cfg dto jobId w)) = ledger w"
proof -
  assume x: "\<not> includes_opt (openExchanges cfg) (exchange dto)"
  from retrieveStockData_invalid_exchange [OF x, of d jobId w]
  obtain msg where r: "retrieveStockData d cfg dto jobId w =
       (Inl (Error (''AlphaVantageService : retrieveStockData : Invalid exchange=''
               @ quoted (exchange dto))), logger LOG msg None w)" ..
  have "startsWith (Error_toString (''AlphaVantageService : retrieveStockData : Invalid exchange=''
              @ quoted (exchange dto))) ''Error:''"
    by (rule Error_toString_client) simp
  then show ?thesis
    by (simp add: r logger_keeps)
qed

theorem unsupported_exchange_rejected_witness:
  "\<not> includes_opt (openExchanges example_config) (exchange (example_dto ''NYSE'' 1440)) \<and>
   fst (retrieveStockData (example_deps (Inr example_bars) None (Inr ''UP'')) example_config
          (example_dto ''NYSE'' 1440) (Some 7) example_world) =
     Inl (Error (''AlphaVantageService : retrieveStockData : Invalid exchange='' @ quoted ''NYSE'')) \<and>
   ledger_updates (snd (retrieveStockData (example_deps (Inr example_bars) None (Inr ''UP''))
          example_config (example_dto ''NYSE'' 1440) (Some 7) example_world)) = []"
proof -
  have x: "\<not> includes_opt (openExchanges example_config) (exchange (example_dto ''NYSE'' 1440))"
    by (simp add: includes_opt_def example_config_def example_dto_def)
  show ?thesis
    using x unsupported_exchange_rejected [OF x, of "example_deps (Inr example_bars) None (Inr ''UP'')"
      "Some 7" example_world]
    by (simp add: example_dto_def example_world_def)
qed

theorem unsupported_exchange_ledger_counterexample:
  "fst (retrieveStockData (example_deps (Inr example_bars) None (Inr ''UP''))
      example_config (example_dto ''NYSE'' 1440) (Some 7) example_world) =
     Inl (Error (''AlphaVantageService : retrieveStockData : Invalid exchange='' @ quoted ''NYSE'')) \<and>
   ledger_updates (snd (retrieveStockData (example_deps (Inr example_bars) None (Inr ''UP''))
      example_config (example_dto ''NYSE'' 1440) (Some 7) example_world)) = [] \<and>
   map_option status_code (findProxyJobLogById (Some 7)
     (snd (retrieveStockData (example_deps (Inr example_bars) None (Inr ''UP''))
        example_config (example_dto ''NYSE'' 1440) (Some 7) example_world))) = Some 0"
  by (simp add: run_defs example_defs)

text \<open>
  C4. An invocation of \<open>retrieveStockData\<close> that is routed to a fetch path makes exactly
  one call of \<open>updateProxyJobLog\<close>, for its job id, whether the fetch succeeds or fails,
  and so does every invocation of \<open>retrieveDailyData\<close> and of \<open>retrieveIntraDayData\<close>;
  an invocation rejected for its exchange or its interval makes none.
\<close>

theorem ledger_updates_per_invocation:
  "(includes_opt (openExchanges cfg) (exchange dto) \<and>
    (interval dto = ONE_DAY d \<or> includes_opt (intraDayIntervals cfg) (interval dto)) \<longrightarrow>
      (\<exists>u. ledger_updates (snd (retrieveStockData d cfg dto jobId w)) = ledger_updates w @ [u]
           \<and> fst u = jobId)) \<and>
   (\<not> (includes_opt (openExchanges cfg) (exchange dto) \<and>
    (interval dto = ONE_DAY d \<or> includes_opt (intraDayIntervals cfg) (interval dto))) \<longrightarrow>
      ledger_updates (snd (retrieveStockData d cfg dto jobId w)) = ledger_updates w) \<and>
   (\<exists>u. ledger_updates (snd (retrieveDailyData d dto jobId w)) = ledger_updates w @ [u]
        \<and> fst u = jobId) \<and>
   (\<exists>u. ledger_updates (snd (retrieveIntraDayData d dto jobId w)) = ledger_updates w @ [u]
        \<and> fst u = jobId)"
proof -
  have daily: "\<exists>u. ledger_updates (snd (retrieveDailyData d dto jobId w)) = ledger_updates w @ [u]
        \<and> fst u = jobId"
    by (cases "daily_fetch d dto") (simp_all add: daily_failure_updates daily_success_updates)
  have intraday: "\<exists>u. ledger_updates (snd (retrieveIntraDayData d dto jobId w)) =
        ledger_updates w @ [u] \<and> fst u = jobId"
    by (cases "intraday_fetch d dto")
      (simp_all add: intraday_failure_updates intraday_success_updates)
  show ?thesis
    using daily intraday retrieveStockData_routed(2) [of cfg dto d jobId w]
      retrieveStockData_rejected(3) [of cfg dto d jobId w]
    by blast
qed

theorem ledger_updates_per_invocation_witness:
  "(\<exists>u. ledger_updates (snd (retrieveStockData (example_deps (Inl (ProviderFault ''timeout'')) None (Inr ''UP''))
          example_config (example_dto ''NASDAQ'' 5) (Some 7) example_world)) =
        ledger_updates example_world @ [u] \<and> fst u = Some 7) \<and>
   ledger_updates (snd (retrieveStockData (example_deps (Inl (ProviderFault ''timeout'')) None (Inr ''UP''))
          example_config (example_dto ''NASDAQ'' 7) (Some 7) example_world)) =
     ledger_updates example_world"
proof -
  have a: "includes_opt (openExchanges example_config) (exchange (example_dto ''NASDAQ'' 5)) \<and>
    (interval (example_dto ''NASDAQ'' 5) = ONE_DAY (example_deps (Inl (ProviderFault ''timeout'')) None (Inr ''UP''))
     \<or> includes_opt (intraDayIntervals example_config) (interval (example_dto ''NASDAQ'' 5)))"
    by (simp add: includes_opt_def example_defs)
  have b: "\<not> (includes_opt (openExchanges example_config) (exchange (example_dto ''NASDAQ'' 7)) \<and>
    (interval (example_dto ''NASDAQ'' 7) = ONE_DAY (example_deps (Inl (ProviderFault ''timeout'')) None (Inr ''UP''))
     \<or> includes_opt (intraDayIntervals example_config) (interval (example_dto ''NASDAQ'' 7))))"
    by (simp add: includes_opt_def example_defs)
  show ?thesis
    using a b
      ledger_updates_per_invocation [of example_config "example_dto ''NASDAQ'' 5"
        "example_deps (Inl (ProviderFault ''timeout'')) None (Inr ''UP'')" "Some 7" example_world]
      ledger_updates_per_invocation [of example_config "example_dto ''NASDAQ'' 7"
        "example_deps (Inl (ProviderFault ''timeout'')) None (Inr ''UP'')" "Some 7" example_world]
    by blast
qed

theorem rejected_interval_no_update_counterexample:
  "fst (retrieveStockData (example_deps (Inr example_bars) None (Inr ''UP''))
      example_config (example_dto ''NASDAQ'' 7) (Some 7) example_world) =
     Inl (Error (''AlphaVantageService : retrieveStockData : Invalid interval='' @ quoted ''7'')) \<and>
   length (ledger_updates (snd (retrieveStockData (example_deps (Inr example_bars) None (Inr ''UP''))
      example_config (example_dto ''NASDAQ'' 7) (Some 7) example_world))) =
     length (ledger_updates example_world)"
  by (simp add: run_defs example_defs print_defs)

section \<open>Validation order\<close>

text \<open>
  C10. The exchange is tested before the interval: when the exchange is not open the
  error is the invalid-exchange one, whatever the interval is, also for an interval
  that is neither the daily one nor an intraday one; it is never the invalid-interval
  error.
\<close>

theorem exchange_checked_before_interval:
  "\<not> includes_opt (openExchanges cfg) (exchange dto) \<Longrightarrow>
     fst (retrieveStockData d cfg (dto\<lparr>interval := iv\<rparr>) jobId w) =
       Inl (Error (''AlphaVantageService : retrieveStockData : Invalid exchange=''
              @ quoted (exchange dto))) \<and>
     fst (retrieveStockData d cfg (dto\<lparr>interval := iv\<rparr>) jobId w) \<noteq>
       Inl (Error (''AlphaVantageService : retrieveStockData : Invalid interval=''
              @ quoted (Number_toString d iv)))"
  by (simp add: retrieveStockData_def)

theorem exchange_checked_before_interval_witness:
  "\<not> includes_opt (openExchanges example_config) (exchange (example_dto ''NYSE'' 7)) \<and>
   7 \<noteq> ONE_DAY (example_deps (Inr example_bars) None (Inr ''UP'')) \<and>
   \<not> includes_opt (intraDayIntervals example_config) 7 \<and>
   fst (retrieveStockData (example_deps (Inr example_bars) None (Inr ''UP'')) example_config
          (example_dto ''NYSE'' 7) (Some 7) example_world) =
     Inl (Error (''AlphaVantageService : retrieveStockData : Invalid exchange='' @ quoted ''NYSE''))"
proof -
  have x: "\<not> includes_opt (openExchanges example_config) (exchange (example_dto ''NYSE'' 7))"
    by (simp add: includes_opt_def example_config_def example_dto_def)
  have i: "7 \<noteq> ONE_DAY (example_deps (Inr example_bars) None (Inr ''UP''))"
    "\<not> includes_opt (intraDayIntervals example_config) 7"
    by (simp_all add: includes_opt_def example_config_def example_deps_def)
  show ?thesis
    using x i exchange_checked_before_interval [OF x,
      of "example_deps (Inr example_bars) None (Inr ''UP'')" 7 "Some 7" example_world]
    by (simp add: example_dto_def)
qed

section \<open>Health ping\<close>

text \<open>
  C9. \<open>pingProxyHealth\<close> hands on the outcome of the health check as it is: it returns
  the snapshot \<open>getHealth\<close> resolves with, and it raises the error \<open>getHealth\<close> rejects
  with.
\<close>

theorem pingProxyHealth_passes_outcome:
  "pingProxyHealth d = getHealth d \<and>
   ((\<exists>e. pingProxyHealth d = Inl e) \<longleftrightarrow> (\<exists>e. getHealth d = Inl e))"
  by (simp add: pingProxyHealth_def split: sum.split)

theorem pingProxyHealth_raises_counterexample:
  "pingProxyHealth (example_deps (Inr example_bars) None (Inl (Error ''connect ECONNREFUSED''))) =
     Inl (Error ''connect ECONNREFUSED'')"
  by (simp add: pingProxyHealth_def example_deps_def)

section \<open>Failure of the external fetch\<close>

text \<open>
  C5. When the external fetch of \<open>retrieveDailyData\<close> or \<open>retrieveIntraDayData\<close> fails,
  the error falls in exactly one of two classes, and its text alone decides which,
  whoever caused the failure: a text beginning with \<open>Error:\<close> is classed as the
  client's (status 400), any other as the provider's (status 500). The one ledger
  update carries the job id, the provider's name, the computed URL, that status and
  the error's text, the row of the job (when there is one) holds them once the
  update has landed, and an HttpException with the same text and status is raised.
\<close>

theorem fetch_failure_classified:
  "(daily_fetch d dto = Inl e \<longrightarrow>
      fst (retrieveDailyData d dto jobId w) =
        Inl (HttpException (toString e)
               (if startsWith (toString e) ''Error:'' then BAD_REQUEST
                else INTERNAL_SERVER_ERROR)) \<and>
      ledger_updates (snd (retrieveDailyData d dto jobId w)) =
        ledger_updates w @
          [(jobId, PROXY_NAME, daily_url d dto,
            (if startsWith (toString e) ''Error:'' then BAD_REQUEST
             else INTERNAL_SERVER_ERROR), toString e)] \<and>
      (ledger w j = Some row \<longrightarrow>
         findProxyJobLogById (Some j) (snd (retrieveDailyData d dto (Some j) w)) =
           Some (row\<lparr>provider_name := PROXY_NAME, url := daily_url d dto,
                     status_code := (if startsWith (toString e) ''Error:'' then 400 else 500),
                     message := toString e\<rparr>))) \<and>
   (intraday_fetch d dto = Inl e \<longrightarrow>
      fst (retrieveIntraDayData d dto jobId w) =
        Inl (HttpException (toString e)
               (if startsWith (toString e) ''Error:'' then BAD_REQUEST
                else INTERNAL_SERVER_ERROR)) \<and>
      ledger_updates (snd (retrieveIntraDayData d dto jobId w)) =
        ledger_updates w @
          [(jobId, PROXY_NAME, intraday_url d dto,
            (if startsWith (toString e) ''Error:'' then BAD_REQUEST
             else INTERNAL_SERVER_ERROR), toString e)] \<and>
      (ledger w j = Some row \<longrightarrow>
         findProxyJobLogById (Some j) (snd (retrieveIntraDayData d dto (Some j) w)) =
           Some (row\<lparr>provider_name := PROXY_NAME, url := intraday_url d dto,
                     status_code := (if startsWith (toString e) ''Error:'' then 400 else 500),
                     message := toString e\<rparr>)))"
proof -
  have c: "http_code (error_status (toString e)) =
      (if startsWith (toString e) ''Error:'' then 400 else 500)"
    by (simp add: error_status_def)
  show ?thesis
    using c
    by (simp add: daily_failure_result daily_failure_updates daily_failure_row
        intraday_failure_result intraday_failure_updates intraday_failure_row)
      (simp add: error_status_def)
qed

theorem fetch_failure_classified_witness:
  "daily_fetch (example_deps (Inl (ClientFault ''Error: Invalid symbol'')) None (Inr ''UP''))
     (example_dto ''NASDAQ'' 1440) = Inl (ClientFault ''Error: Invalid symbol'') \<and>
   fst (retrieveDailyData (example_deps (Inl (ClientFault ''Error: Invalid symbol'')) None (Inr ''UP''))
          (example_dto ''NASDAQ'' 1440) (Some 7) example_world) =
     Inl (HttpException ''Error: Invalid symbol'' BAD_REQUEST) \<and>
   findProxyJobLogById (Some 7)
     (snd (retrieveDailyData (example_deps (Inl (ClientFault ''Error: Invalid symbol'')) None (Inr ''UP''))
          (example_dto ''NASDAQ'' 1440) (Some 7) example_world)) =
     Some (example_row\<lparr>provider_name := ''AlphaVantage'', url := ''daily/NASDAQ/AAPL'',
                        status_code := 400, message := ''Error: Invalid symbol''\<rparr>) \<and>
   intraday_fetch (example_deps (Inl (ProviderFault ''timeout'')) None (Inr ''UP''))
     (example_dto ''NASDAQ'' 5) = Inl (ProviderFault ''timeout'') \<and>
   fst (retrieveIntraDayData (example_deps (Inl (ProviderFault ''timeout'')) None (Inr ''UP''))
          (example_dto ''NASDAQ'' 5) (Some 7) example_world) =
     Inl (HttpException ''timeout'' INTERNAL_SERVER_ERROR) \<and>
   ledger_updates (snd (retrieveIntraDayData (example_deps (Inl (ProviderFault ''timeout'')) None (Inr ''UP''))
          (example_dto ''NASDAQ'' 5) (Some 7) example_world)) =
     [(Some 7, ''AlphaVantage'', ''intraday/NASDAQ/AAPL/5'', INTERNAL_SERVER_ERROR, ''timeout'')]"
proof -
  let ?c = "example_deps (Inl (ClientFault ''Error: Invalid symbol'')) None (Inr ''UP'')"
  let ?p = "example_deps (Inl (ProviderFault ''timeout'')) None (Inr ''UP'')"
  have a: "daily_fetch ?c (example_dto ''NASDAQ'' 1440) = Inl (ClientFault ''Error: Invalid symbol'')"
    by (simp add: daily_fetch_def example_deps_def)
  have b: "intraday_fetch ?p (example_dto ''NASDAQ'' 5) = Inl (ProviderFault ''timeout'')"
    by (simp add: intraday_fetch_def example_deps_def)
  have r: "ledger example_world 7 = Some example_row"
    by (simp add: example_world_def)
  have s: "startsWith ''Error: Invalid symbol'' ''Error:''" "\<not> startsWith ''timeout'' ''Error:''"
    by (simp_all add: startsWith_def)
  have u: "daily_url ?c (example_dto ''NASDAQ'' 1440) = ''daily/NASDAQ/AAPL''"
    "intraday_url ?p (example_dto ''NASDAQ'' 5) = ''intraday/NASDAQ/AAPL/5''"
    by (simp_all add: daily_url_def intraday_url_def example_deps_def example_dto_def print_defs)
  have n: "ledger_updates example_world = []"
    by (simp add: example_world_def)
  show ?thesis
    using a b r
      fetch_failure_classified [of ?c "example_dto ''NASDAQ'' 1440"
        "ClientFault ''Error: Invalid symbol''" "Some 7" example_world 7 example_row]
      fetch_failure_classified [of ?p "example_dto ''NASDAQ'' 5" "ProviderFault ''timeout''"
        "Some 7" example_world 7 example_row]
    by (simp add: s u n PROXY_NAME_def)
qed

theorem fetch_failure_cause_counterexample:
  "fst (retrieveDailyData
          (example_deps (Inl (ProviderFault ''Error: connect ECONNREFUSED'')) None (Inr ''UP''))
          (example_dto ''NASDAQ'' 1440) (Some 7) example_world) =
     Inl (HttpException ''Error: connect ECONNREFUSED'' BAD_REQUEST) \<and>
   fst (retrieveIntraDayData
          (example_deps (Inl (ClientFault ''Invalid symbol'')) None (Inr ''UP''))
          (example_dto ''NASDAQ'' 5) (Some 7) example_world) =
     Inl (HttpException ''Invalid symbol'' INTERNAL_SERVER_ERROR)"
  by (simp add: run_defs example_defs)

section \<open>Success of the external fetch\<close>



section \<open>What the caller receives\<close>




end
